theory Spec2Isabelle
  imports Main
begin

section \<open>Strings\<close>

text \<open>
  A JavaScript string is modelled by the list of bytes of its UTF-8 encoding, held in
  Isabelle's 8-bit \<^typ>\<open>char\<close>: \<^verbatim>\<open>Buffer.byteLength(s, 'utf8')\<close> is then the length of
  the list. Every needle, separator and extension the source compares with is ASCII, and an
  ASCII byte never occurs inside a multi-byte UTF-8 sequence, so \<^verbatim>\<open>includes\<close>,
  \<^verbatim>\<open>split('.')\<close> and the comparisons after \<^verbatim>\<open>toLowerCase()\<close> give the same
  answers on the bytes as on the UTF-16 code units.
\<close>

text \<open>
  \<^verbatim>\<open>toLowerCase()\<close> on the ASCII letters; every other byte is kept. (The only
  non-ASCII characters whose lower case holds an ASCII letter are U+212A, giving \<open>k\<close>,
  and U+0130, giving \<open>i\<close> followed by a combining dot: no extension or attribute value
  the source compares with can be produced from them.)
\<close>

definition toLowerCase_char :: "char \<Rightarrow> char" where
  "toLowerCase_char c =
     (case map_of (zip ''ABCDEFGHIJKLMNOPQRSTUVWXYZ'' ''abcdefghijklmnopqrstuvwxyz'') c of
        Some l \<Rightarrow> l
      | None \<Rightarrow> c)"

definition toLowerCase :: "string \<Rightarrow> string" where
  "toLowerCase s = map toLowerCase_char s"

definition startsWith :: "string \<Rightarrow> string \<Rightarrow> bool" where
  "startsWith s p = (take (length p) s = p)"

text \<open>\<^verbatim>\<open>s.includes(n)\<close>: \<open>n\<close> occurs in \<open>s\<close> at some position.\<close>

fun includes_str :: "string \<Rightarrow> string \<Rightarrow> bool" where
  "includes_str [] n = (n = [])"
| "includes_str (c # cs) n = (startsWith (c # cs) n \<or> includes_str cs n)"

text \<open>
  \<^verbatim>\<open>s.split('.').pop()\<close>: the piece after the last dot, the whole string when it has
  no dot. \<^verbatim>\<open>split\<close> never returns an empty array, so \<^verbatim>\<open>pop()\<close> is never undefined.
\<close>

definition split_pop :: "string \<Rightarrow> string" where
  "split_pop s = rev (takeWhile (\<lambda>c. c \<noteq> CHR ''.'') (rev s))"

section \<open>The size heuristics\<close>

definition estimateCSSSize :: "string \<Rightarrow> int" where
  "estimateCSSSize href =
     (if includes_str href ''bootstrap'' \<or> includes_str href ''tailwind'' then 150000
      else if includes_str href ''font-awesome'' \<or> includes_str href ''material-icons'' then 75000
      else if includes_str href ''.min.css'' then 25000
      else 40000)"

definition estimateJSSize :: "string \<Rightarrow> int" where
  "estimateJSSize src =
     (if includes_str src ''react'' \<or> includes_str src ''vue'' \<or> includes_str src ''angular'' then 200000
      else if includes_str src ''jquery'' then 85000
      else if includes_str src ''lodash'' \<or> includes_str src ''moment'' then 70000
      else if includes_str src ''.min.js'' then 30000
      else 50000)"

definition estimateImageSize :: "string \<Rightarrow> int" where
  "estimateImageSize src =
     (let ext = toLowerCase (split_pop src) in
      if ext = ''svg'' then 5000
      else if ext = ''png'' then 80000
      else if ext = ''jpg'' \<or> ext = ''jpeg'' then 60000
      else if ext = ''webp'' then 40000
      else if ext = ''gif'' then 100000
      else 75000)"

definition estimateFontSize :: "string \<Rightarrow> int" where
  "estimateFontSize href =
     (let ext = toLowerCase (split_pop href) in
      if ext = ''woff2'' then 25000
      else if ext = ''woff'' then 35000
      else if ext = ''ttf'' then 60000
      else 30000)"

definition estimateOtherResourceSize :: "string \<Rightarrow> int" where
  "estimateOtherResourceSize href =
     (if includes_str href ''favicon'' then 5000
      else if includes_str href ''manifest'' then 2000
      else 20000)"

section \<open>The parsed document\<close>

text \<open>
  \<^verbatim>\<open>analyzeResourcesWithCheerio($, baseUrl)\<close> receives the document already parsed.
  The model of \<^verbatim>\<open>$\<close> is the list of the document's elements in document order, which is
  the order in which a selection visits them. An element carries what the function reads
  from it: its tag name, its attributes (\<^verbatim>\<open>.attr(name)\<close> is the first entry of that
  name), the string \<^verbatim>\<open>.html()\<close> returns for it, and the tag names of its ancestors
  (for the descendant selector \<^verbatim>\<open>picture source\<close>).
\<close>

record element =
  tag :: string
  attrs :: "(string \<times> string) list"
  inner :: string
  ancestors :: "string list"

type_synonym cheerio = "element list"

definition attr :: "element \<Rightarrow> string \<Rightarrow> string option" where
  "attr elem name = map_of (attrs elem) name"

text \<open>JavaScript truthiness of \<^verbatim>\<open>string | undefined | null\<close>: defined and not empty.\<close>

fun truthy :: "string option \<Rightarrow> bool" where
  "truthy None = False"
| "truthy (Some s) = (s \<noteq> [])"

text \<open>\<^verbatim>\<open>a || b\<close> on such values.\<close>

definition or_js :: "string option \<Rightarrow> string option \<Rightarrow> string option" where
  "or_js a b = (if truthy a then a else b)"

subsection \<open>Selectors\<close>

text \<open>
  The selectors of the source use type selectors, attribute selectors (\<^verbatim>\<open>[a]\<close>,
  \<^verbatim>\<open>[a="v"]\<close>, \<^verbatim>\<open>[a*="v"]\<close>), \<^verbatim>\<open>:not\<close>, one descendant combinator under a tag
  name, and the comma. In an HTML document the values of the attributes in
  \<open>caseInsensitiveAttributes\<close> (the list of the HTML standard, which the selector
  engine follows) are compared without regard to letter case; of the attributes the
  source selects on, only \<^verbatim>\<open>rel\<close> is in it. A comma selector visits each element once,
  however many of its alternatives the element matches.
\<close>

definition caseInsensitiveAttributes :: "string list" where
  "caseInsensitiveAttributes =
     [''accept'', ''accept-charset'', ''align'', ''alink'', ''axis'', ''bgcolor'',
      ''charset'', ''checked'', ''clear'', ''codetype'', ''color'', ''compact'',
      ''declare'', ''defer'', ''dir'', ''direction'', ''disabled'', ''enctype'', ''face'',
      ''frame'', ''hreflang'', ''http-equiv'', ''lang'', ''language'', ''link'', ''media'',
      ''method'', ''multiple'', ''nohref'', ''noresize'', ''noshade'', ''nowrap'',
      ''readonly'', ''rel'', ''rev'', ''rules'', ''scope'', ''scrolling'', ''selected'',
      ''shape'', ''target'', ''text'', ''type'', ''valign'', ''valuetype'', ''vlink'']"

datatype simple =
    Tag string
  | Has string
  | Equals string string
  | Contains string string
  | NotSel simple

definition fold_case :: "string \<Rightarrow> string \<Rightarrow> string" where
  "fold_case name v = (if name \<in> set caseInsensitiveAttributes then toLowerCase v else v)"

fun matches_simple :: "element \<Rightarrow> simple \<Rightarrow> bool" where
  "matches_simple elem (Tag n) = (tag elem = n)"
| "matches_simple elem (Has a) = (attr elem a \<noteq> None)"
| "matches_simple elem (Equals a v) =
     (case attr elem a of None \<Rightarrow> False | Some x \<Rightarrow> fold_case a x = fold_case a v)"
| "matches_simple elem (Contains a v) =
     (case attr elem a of
        None \<Rightarrow> False
      | Some x \<Rightarrow> v \<noteq> [] \<and> includes_str (fold_case a x) (fold_case a v))"
| "matches_simple elem (NotSel s) = (\<not> matches_simple elem s)"

datatype complex =
    Compound "simple list"
  | Descendant string "simple list"

fun matches_complex :: "element \<Rightarrow> complex \<Rightarrow> bool" where
  "matches_complex elem (Compound ss) = list_all (matches_simple elem) ss"
| "matches_complex elem (Descendant anc ss) =
     (anc \<in> set (ancestors elem) \<and> list_all (matches_simple elem) ss)"

type_synonym selector = "complex list"

definition matches :: "selector \<Rightarrow> element \<Rightarrow> bool" where
  "matches sel elem = list_ex (matches_complex elem) sel"

definition select :: "selector \<Rightarrow> cheerio \<Rightarrow> element list" where
  "select sel doc = filter (matches sel) doc"

section \<open>The tallies\<close>

record Tally =
  count :: int
  size' :: int

record Breakdown =
  document :: Tally
  stylesheet :: Tally
  script :: Tally
  image :: Tally
  font :: Tally
  other :: Tally

text \<open>
  The two variables the scan mutates: \<^verbatim>\<open>breakdown\<close> and the running
  \<^verbatim>\<open>totalEstimatedSize\<close>. The result adds \<^verbatim>\<open>totalRequests\<close>. The numbers are
  JavaScript numbers holding integers; they are modelled by \<^typ>\<open>int\<close>.
\<close>

record acc =
  breakdown :: Breakdown
  totalEstimatedSize :: int

record AnalysisResult = acc +
  totalRequests :: int

text \<open>
  \<^verbatim>\<open>breakdown.cat.count += n\<close>, \<^verbatim>\<open>breakdown.cat.size += n\<close> and
  \<^verbatim>\<open>totalEstimatedSize += n\<close>; \<open>cat\<close> is the update function of the category's field.
\<close>

definition add_count ::
  "((Tally \<Rightarrow> Tally) \<Rightarrow> Breakdown \<Rightarrow> Breakdown) \<Rightarrow> int \<Rightarrow> acc \<Rightarrow> acc" where
  "add_count cat n st = breakdown_update (cat (count_update (\<lambda>c. c + n))) st"

definition add_size ::
  "((Tally \<Rightarrow> Tally) \<Rightarrow> Breakdown \<Rightarrow> Breakdown) \<Rightarrow> int \<Rightarrow> acc \<Rightarrow> acc" where
  "add_size cat n st = breakdown_update (cat (size'_update (\<lambda>s. s + n))) st"

definition add_total :: "int \<Rightarrow> acc \<Rightarrow> acc" where
  "add_total n st = totalEstimatedSize_update (\<lambda>t. t + n) st"

definition byteLength :: "string \<Rightarrow> int" where
  "byteLength content = int (length content)"

text \<open>
  \<^verbatim>\<open>trim()\<close> strips the white space and line terminators of ECMAScript, here in
  UTF-8: TAB, LF, VT, FF, CR, SP, U+00A0, U+1680, U+2000 to U+200A, U+2028, U+2029, U+202F,
  U+205F, U+3000 and U+FEFF. The source only asks whether \<^verbatim>\<open>content.trim()\<close> is empty,
  which is whether stripping at the start leaves nothing.
\<close>

definition whitespace :: "string list" where
  "whitespace =
     [[CHR 0x09], [CHR 0x0A], [CHR 0x0B], [CHR 0x0C], [CHR 0x0D], [CHR 0x20],
      [CHR 0xC2, CHR 0xA0], [CHR 0xE1, CHR 0x9A, CHR 0x80],
      [CHR 0xE2, CHR 0x80, CHR 0x80], [CHR 0xE2, CHR 0x80, CHR 0x81],
      [CHR 0xE2, CHR 0x80, CHR 0x82], [CHR 0xE2, CHR 0x80, CHR 0x83],
      [CHR 0xE2, CHR 0x80, CHR 0x84], [CHR 0xE2, CHR 0x80, CHR 0x85],
      [CHR 0xE2, CHR 0x80, CHR 0x86], [CHR 0xE2, CHR 0x80, CHR 0x87],
      [CHR 0xE2, CHR 0x80, CHR 0x88], [CHR 0xE2, CHR 0x80, CHR 0x89],
      [CHR 0xE2, CHR 0x80, CHR 0x8A], [CHR 0xE2, CHR 0x80, CHR 0xA8],
      [CHR 0xE2, CHR 0x80, CHR 0xA9], [CHR 0xE2, CHR 0x80, CHR 0xAF],
      [CHR 0xE2, CHR 0x81, CHR 0x9F], [CHR 0xE3, CHR 0x80, CHR 0x80],
      [CHR 0xEF, CHR 0xBB, CHR 0xBF]]"

lemma startsWith_length:
  assumes "startsWith s w"
  shows "length w \<le> length s"
proof -
  from assms have "length (take (length w) s) = length w"
    by (simp add: startsWith_def)
  then show ?thesis
    by simp
qed

lemma whitespace_nonempty: "\<forall>w \<in> set whitespace. w \<noteq> []"
  by (simp add: whitespace_def)

lemma whitespace_step:
  assumes "find (startsWith s) whitespace = Some w"
  shows "length (drop (length w) s) < length s"
proof -
  from assms have w: "w \<in> set whitespace" and sw: "startsWith s w"
    by (auto simp: find_Some_iff)
  from w have "0 < length w"
    using whitespace_nonempty by simp
  moreover from sw have "length w \<le> length s"
    by (rule startsWith_length)
  ultimately have "length s - length w < length s"
    by arith
  then show ?thesis
    by simp
qed

function trimStart :: "string \<Rightarrow> string" where
  "trimStart s =
     (case find (startsWith s) whitespace of
        None \<Rightarrow> s
      | Some w \<Rightarrow> trimStart (drop (length w) s))"
  by pat_completeness auto
termination
proof (relation "measure length")
  show "wf (measure length)"
    by simp
next
  fix s w
  assume "find (startsWith s) whitespace = Some w"
  then show "(drop (length w) s, s) \<in> measure length"
    using whitespace_step [of s w] by (simp only: in_measure)
qed

definition trim_truthy :: "string \<Rightarrow> bool" where
  "trim_truthy content = (trimStart content \<noteq> [])"

section \<open>The background-image pattern\<close>

text \<open>
  The regular expression literal, as it stands in the source, is
  \<^verbatim>\<open>/background-image:\\s*url\\(['\"]?([^'\"]+)['\"]?\\)/i\<close>. Each \<^verbatim>\<open>\\\<close> is an
  escaped backslash and matches one backslash character, so the pattern reads:
  \<^verbatim>\<open>background-image:\<close>, a backslash, any number of \<^verbatim>\<open>s\<close>, \<^verbatim>\<open>url\<close>, a backslash,
  and then group 1, which is an optional quote, group 2 (one or more characters that are
  no quote), an optional quote, and a backslash. Letters match in either case.
  \<^verbatim>\<open>match[1]\<close> is group 1.

  \<open>match_group\<close> is group 1 at a fixed position. The quantifiers are greedy: the run of
  non-quote characters is taken as long as possible, which succeeds when a quote and a
  backslash follow it; otherwise the run is shortened until a backslash follows it, that
  is up to the last backslash inside it, at least one character staying in the run.
\<close>

definition quote :: "char \<Rightarrow> bool" where
  "quote c = (c = CHR 0x27 \<or> c = CHR 0x22)"

definition backslash :: char where
  "backslash = CHR 0x5C"

definition startsWith_ci :: "string \<Rightarrow> string \<Rightarrow> bool" where
  "startsWith_ci s p = (toLowerCase (take (length p) s) = toLowerCase p)"

definition shorten_run :: "string \<Rightarrow> string \<Rightarrow> string option" where
  "shorten_run q run =
     (let d = dropWhile (\<lambda>c. c \<noteq> backslash) (rev run) in
      if 2 \<le> length d then Some (q @ rev d) else None)"

definition match_group :: "string \<Rightarrow> string option" where
  "match_group s =
     (let q = takeWhile quote (take 1 s);
          s1 = drop (length q) s;
          run = takeWhile (\<lambda>c. \<not> quote c) s1;
          rest = dropWhile (\<lambda>c. \<not> quote c) s1
      in if run = [] then None
         else case rest of
                qc # b # _ \<Rightarrow>
                  if b = backslash then Some (q @ run @ [qc, b]) else shorten_run q run
              | _ \<Rightarrow> shorten_run q run)"

definition match_at :: "string \<Rightarrow> string option" where
  "match_at s =
     (if \<not> startsWith_ci s ''background-image:'' then None
      else case drop (length ''background-image:'') s of
             [] \<Rightarrow> None
           | b # s1 \<Rightarrow>
               if b \<noteq> backslash then None
               else let s2 = dropWhile (\<lambda>c. c = CHR ''s'' \<or> c = CHR ''S'') s1 in
                    if \<not> startsWith_ci s2 ''url'' then None
                    else case drop (length ''url'') s2 of
                           [] \<Rightarrow> None
                         | b' # s3 \<Rightarrow> if b' \<noteq> backslash then None else match_group s3)"

text \<open>\<^verbatim>\<open>style.match(re)\<close> without the \<^verbatim>\<open>g\<close> flag: the leftmost position that matches.\<close>

fun regex_search :: "string \<Rightarrow> string option" where
  "regex_search [] = match_at []"
| "regex_search (c # cs) =
     (case match_at (c # cs) of Some m \<Rightarrow> Some m | None \<Rightarrow> regex_search cs)"

definition extractBackgroundImage :: "string option \<Rightarrow> string option" where
  "extractBackgroundImage style =
     (if \<not> truthy style then None
      else case style of None \<Rightarrow> None | Some s \<Rightarrow> regex_search s)"

section \<open>The scan\<close>

text \<open>
  Each \<^verbatim>\<open>$(selector).each((i, elem) => ...)\<close> is a left fold of the callback over the
  selection; the callback is the function \<open>..._each\<close>, from the state before the
  element to the state after it.
\<close>

definition cssLinks_sel :: selector where
  "cssLinks_sel =
     [Compound [Tag ''link'', Equals ''rel'' ''stylesheet''],
      Compound [Tag ''link'', Equals ''rel'' ''preload'', Equals ''as'' ''style'']]"

definition cssLinks_each :: "acc \<Rightarrow> element \<Rightarrow> acc" where
  "cssLinks_each st elem =
     (let href = attr elem ''href'' in
      case href of
        None \<Rightarrow> st
      | Some h \<Rightarrow>
          if truthy href then
            let estimatedSize = estimateCSSSize h in
            add_total estimatedSize
              (add_size stylesheet_update estimatedSize (add_count stylesheet_update 1 st))
          else st)"

definition inlineStyles_sel :: selector where
  "inlineStyles_sel = [Compound [Tag ''style'']]"

definition inlineStyles_each :: "acc \<Rightarrow> element \<Rightarrow> acc" where
  "inlineStyles_each st elem =
     (let content = inner elem in
      if content \<noteq> [] then
        let sz = byteLength content in
        add_total sz (add_size stylesheet_update sz (add_count stylesheet_update 1 st))
      else st)"

definition scriptTags_sel :: selector where
  "scriptTags_sel = [Compound [Tag ''script'', Has ''src'']]"

definition scriptTags_each :: "acc \<Rightarrow> element \<Rightarrow> acc" where
  "scriptTags_each st elem =
     (let src = attr elem ''src'' in
      case src of
        None \<Rightarrow> st
      | Some s \<Rightarrow>
          if truthy src then
            let estimatedSize = estimateJSSize s in
            add_total estimatedSize
              (add_size script_update estimatedSize (add_count script_update 1 st))
          else st)"

definition inlineScripts_sel :: selector where
  "inlineScripts_sel = [Compound [Tag ''script'', NotSel (Has ''src'')]]"

definition inlineScripts_each :: "acc \<Rightarrow> element \<Rightarrow> acc" where
  "inlineScripts_each st elem =
     (let content = inner elem in
      if content \<noteq> [] \<and> trim_truthy content then
        let sz = byteLength content in
        add_total sz (add_size script_update sz (add_count script_update 1 st))
      else st)"

definition images_sel :: selector where
  "images_sel =
     [Compound [Tag ''img''],
      Descendant ''picture'' [Tag ''source''],
      Compound [Contains ''style'' ''background-image'']]"

definition images_each :: "acc \<Rightarrow> element \<Rightarrow> acc" where
  "images_each st elem =
     (let src = or_js (or_js (attr elem ''src'') (attr elem ''srcset''))
                  (extractBackgroundImage (attr elem ''style'')) in
      case src of
        None \<Rightarrow> st
      | Some s \<Rightarrow>
          if truthy src then
            let estimatedSize = estimateImageSize s in
            add_total estimatedSize
              (add_size image_update estimatedSize (add_count image_update 1 st))
          else st)"

definition fontLinks_sel :: selector where
  "fontLinks_sel =
     [Compound [Tag ''link'', Equals ''rel'' ''preload'', Equals ''as'' ''font''],
      Compound [Tag ''link'', Contains ''href'' ''font'']]"

definition fontLinks_each :: "acc \<Rightarrow> element \<Rightarrow> acc" where
  "fontLinks_each st elem =
     (let href = attr elem ''href'' in
      case href of
        None \<Rightarrow> st
      | Some h \<Rightarrow>
          if truthy href then
            let estimatedSize = estimateFontSize h in
            add_total estimatedSize
              (add_size font_update estimatedSize (add_count font_update 1 st))
          else st)"

definition webFontCSS_sel :: selector where
  "webFontCSS_sel =
     [Compound [Tag ''link'', Contains ''href'' ''fonts.googleapis.com''],
      Compound [Tag ''link'', Contains ''href'' ''fonts.google.com''],
      Compound [Tag ''link'', Contains ''href'' ''typekit.net'']]"

text \<open>
  The source: \<^verbatim>\<open>breakdown.font.count += 2; // Estimate 2 fonts per web font CSS\<close>, then
  \<^verbatim>\<open>const estimatedSize = 60000; // Estimate 60KB for web font family\<close>, added once to
  \<^verbatim>\<open>breakdown.font.size\<close> and once to \<^verbatim>\<open>totalEstimatedSize\<close>.
\<close>

definition webFontCSS_each :: "acc \<Rightarrow> element \<Rightarrow> acc" where
  "webFontCSS_each st elem =
     (let st1 = add_count font_update 2 st;
          estimatedSize = 60000
      in add_total estimatedSize (add_size font_update estimatedSize st1))"

definition otherResources_sel :: selector where
  "otherResources_sel =
     [Compound [Tag ''link'', Equals ''rel'' ''icon''],
      Compound [Tag ''link'', Equals ''rel'' ''manifest''],
      Compound [Tag ''embed''], Compound [Tag ''object''],
      Compound [Tag ''audio''], Compound [Tag ''video'']]"

definition otherResources_each :: "acc \<Rightarrow> element \<Rightarrow> acc" where
  "otherResources_each st elem =
     (let href = or_js (attr elem ''href'') (attr elem ''src'') in
      case href of
        None \<Rightarrow> st
      | Some h \<Rightarrow>
          if truthy href then
            let estimatedSize = estimateOtherResourceSize h in
            add_total estimatedSize
              (add_size other_update estimatedSize (add_count other_update 1 st))
          else st)"

definition initial :: acc where
  "initial =
     \<lparr>breakdown =
        \<lparr>document = \<lparr>count = 1, size' = 0\<rparr>,
         stylesheet = \<lparr>count = 0, size' = 0\<rparr>,
         script = \<lparr>count = 0, size' = 0\<rparr>,
         image = \<lparr>count = 0, size' = 0\<rparr>,
         font = \<lparr>count = 0, size' = 0\<rparr>,
         other = \<lparr>count = 0, size' = 0\<rparr>\<rparr>,
      totalEstimatedSize = 0\<rparr>"

text \<open>\<^verbatim>\<open>Object.values(breakdown)\<close>: the six tallies in the order of the literal.\<close>

definition values_of :: "Breakdown \<Rightarrow> Tally list" where
  "values_of b = [document b, stylesheet b, script b, image b, font b, other b]"

text \<open>
  The eight scans in the order of the source, from the state \<open>st0\<close> the two variables
  are in when the first scan starts; \<open>scan\<close> is the state after the last when they start
  from the literal and 0, as the source has it.
\<close>

definition scan_from :: "acc \<Rightarrow> cheerio \<Rightarrow> acc" where
  "scan_from st0 doc =
     (let st = foldl cssLinks_each st0 (select cssLinks_sel doc);
          st = foldl inlineStyles_each st (select inlineStyles_sel doc);
          st = foldl scriptTags_each st (select scriptTags_sel doc);
          st = foldl inlineScripts_each st (select inlineScripts_sel doc);
          st = foldl images_each st (select images_sel doc);
          st = foldl fontLinks_each st (select fontLinks_sel doc);
          st = foldl webFontCSS_each st (select webFontCSS_sel doc)
      in foldl otherResources_each st (select otherResources_sel doc))"

definition scan :: "cheerio \<Rightarrow> acc" where
  "scan doc = scan_from initial doc"

definition analyzeResourcesWithCheerio :: "cheerio \<Rightarrow> string \<Rightarrow> AnalysisResult" where
  "analyzeResourcesWithCheerio doc baseUrl =
     (let st = scan doc;
          totalRequests = foldl (\<lambda>sum item. sum + count item) 0 (values_of (breakdown st))
      in \<lparr>breakdown = breakdown st,
          totalEstimatedSize = totalEstimatedSize st,
          totalRequests = totalRequests\<rparr>)"

subsection \<open>Calls in sequence\<close>



subsection \<open>Quantities the scan maintains\<close>

text \<open>
  \<open>surplus\<close> is the running total less the sum of the six sizes; \<open>nonneg\<close> says
  that no count and no size is negative.
\<close>

definition surplus :: "acc \<Rightarrow> int" where
  "surplus st = totalEstimatedSize st - sum_list (map size' (values_of (breakdown st)))"

definition nonneg :: "acc \<Rightarrow> bool" where
  "nonneg st = list_all (\<lambda>t. 0 \<le> count t \<and> 0 \<le> size' t) (values_of (breakdown st))"

text \<open>
  What the callbacks of the stylesheet-link scan and of the font-link scan add to the
  count and to the size of their category for one element.
\<close>

definition fontLinks_count :: "element \<Rightarrow> int" where
  "fontLinks_count e = (if truthy (attr e ''href'') then 1 else 0)"

definition fontLinks_size :: "element \<Rightarrow> int" where
  "fontLinks_size e =
     (case attr e ''href'' of None \<Rightarrow> 0 | Some h \<Rightarrow> if h = [] then 0 else estimateFontSize h)"

definition cssLinks_count :: "element \<Rightarrow> int" where
  "cssLinks_count e = (if truthy (attr e ''href'') then 1 else 0)"

definition cssLinks_size :: "element \<Rightarrow> int" where
  "cssLinks_size e =
     (case attr e ''href'' of None \<Rightarrow> 0 | Some h \<Rightarrow> if h = [] then 0 else estimateCSSSize h)"

section \<open>Folds over a selection\<close>

lemma foldl_keeps:
  assumes "\<And>st e. g (f st e) = g st"
  shows "g (foldl f st xs) = g st"
  by (induction xs arbitrary: st) (simp_all add: assms)

lemma foldl_adds:
  fixes g :: "'s \<Rightarrow> int"
  assumes "\<And>st e. g (f st e) = g st + d e"
  shows "g (foldl f st xs) = g st + sum_list (map d xs)"
  by (induction xs arbitrary: st) (simp_all add: assms)

lemma foldl_invariant:
  assumes "\<And>st e. I st \<Longrightarrow> I (f st e)" and "I st"
  shows "I (foldl f st xs)"
  using assms(2) by (induction xs arbitrary: st) (simp_all add: assms(1))

lemmas tally_defs = add_count_def add_size_def add_total_def Let_def

lemmas each_defs = cssLinks_each_def inlineStyles_each_def scriptTags_each_def
  inlineScripts_each_def images_each_def fontLinks_each_def webFontCSS_each_def
  otherResources_each_def

section \<open>The document tally\<close>

lemma each_document:
  "document (breakdown (cssLinks_each st e)) = document (breakdown st)"
  "document (breakdown (inlineStyles_each st e)) = document (breakdown st)"
  "document (breakdown (scriptTags_each st e)) = document (breakdown st)"
  "document (breakdown (inlineScripts_each st e)) = document (breakdown st)"
  "document (breakdown (images_each st e)) = document (breakdown st)"
  "document (breakdown (fontLinks_each st e)) = document (breakdown st)"
  "document (breakdown (webFontCSS_each st e)) = document (breakdown st)"
  "document (breakdown (otherResources_each st e)) = document (breakdown st)"
  by (simp_all add: each_defs tally_defs split: option.splits)

lemma scan_document: "document (breakdown (scan doc)) = \<lparr>count = 1, size' = 0\<rparr>"
proof -
  have "document (breakdown (scan doc)) = document (breakdown initial)"
    unfolding scan_def scan_from_def Let_def
    by (simp only: foldl_keeps [where g = "\<lambda>st. document (breakdown st)", OF each_document(1)]
        foldl_keeps [where g = "\<lambda>st. document (breakdown st)", OF each_document(2)]
        foldl_keeps [where g = "\<lambda>st. document (breakdown st)", OF each_document(3)]
        foldl_keeps [where g = "\<lambda>st. document (breakdown st)", OF each_document(4)]
        foldl_keeps [where g = "\<lambda>st. document (breakdown st)", OF each_document(5)]
        foldl_keeps [where g = "\<lambda>st. document (breakdown st)", OF each_document(6)]
        foldl_keeps [where g = "\<lambda>st. document (breakdown st)", OF each_document(7)]
        foldl_keeps [where g = "\<lambda>st. document (breakdown st)", OF each_document(8)])
  then show ?thesis
    by (simp add: initial_def)
qed

text \<open>
  C4. For every parsed document and every \<open>baseUrl\<close>, the returned breakdown has
  \<open>document.count = 1\<close> and \<open>document.size = 0\<close>: the literal sets them and no scan
  touches the document tally.
\<close>

theorem document_tally_fixed:
  "document (breakdown (analyzeResourcesWithCheerio doc baseUrl)) = \<lparr>count = 1, size' = 0\<rparr>"
  by (simp add: analyzeResourcesWithCheerio_def Let_def scan_document)

section \<open>Extensions\<close>

lemma split_pop_last:
  assumes "CHR ''.'' \<notin> set q"
  shows "split_pop (p @ ''.'' @ q) = q"
proof -
  have "takeWhile (\<lambda>c. c \<noteq> CHR ''.'') (rev q @ CHR ''.'' # rev p) = rev q"
    using assms by (auto simp: takeWhile_tail)
  then show ?thesis
    by (simp add: split_pop_def)
qed

lemma toLowerCase_keeps_question_mark:
  assumes "CHR ''?'' \<in> set q"
  shows "CHR ''?'' \<in> set (toLowerCase q)"
proof -
  have "toLowerCase_char (CHR ''?'') = CHR ''?''"
    by (simp add: toLowerCase_char_def)
  with assms show ?thesis
    unfolding toLowerCase_def by (metis image_eqI set_map)
qed


lemma font_default_on_query:
  assumes "CHR ''.'' \<notin> set q" and "CHR ''?'' \<in> set q"
  shows "estimateFontSize (p @ ''.'' @ q) = 30000"
proof -
  have "CHR ''?'' \<in> set (toLowerCase q)"
    using assms(2) by (rule toLowerCase_keeps_question_mark)
  then have "toLowerCase q \<notin> {''woff2'', ''woff'', ''ttf''}"
    by auto
  then show ?thesis
    using split_pop_last [OF assms(1), of p] by (simp add: estimateFontSize_def)
qed








section \<open>Totals\<close>

lemma each_surplus:
  "surplus (cssLinks_each st e) = surplus st"
  "surplus (inlineStyles_each st e) = surplus st"
  "surplus (scriptTags_each st e) = surplus st"
  "surplus (inlineScripts_each st e) = surplus st"
  "surplus (images_each st e) = surplus st"
  "surplus (fontLinks_each st e) = surplus st"
  "surplus (webFontCSS_each st e) = surplus st"
  "surplus (otherResources_each st e) = surplus st"
  by (simp_all add: surplus_def values_of_def each_defs tally_defs split: option.splits)

lemma scan_surplus: "surplus (scan doc) = 0"
proof -
  have "surplus (scan doc) = surplus initial"
    unfolding scan_def scan_from_def Let_def
    by (simp only: foldl_keeps [where g = surplus, OF each_surplus(1)]
        foldl_keeps [where g = surplus, OF each_surplus(2)]
        foldl_keeps [where g = surplus, OF each_surplus(3)]
        foldl_keeps [where g = surplus, OF each_surplus(4)]
        foldl_keeps [where g = surplus, OF each_surplus(5)]
        foldl_keeps [where g = surplus, OF each_surplus(6)]
        foldl_keeps [where g = surplus, OF each_surplus(7)]
        foldl_keeps [where g = surplus, OF each_surplus(8)])
  then show ?thesis
    by (simp add: surplus_def initial_def values_of_def)
qed

text \<open>
  C2. For every parsed document, the returned \<open>totalRequests\<close> is the sum of the counts
  of the six tallies of the returned breakdown, and the returned \<open>totalEstimatedSize\<close>
  is the sum of their sizes, the document tally contributing size 0.
\<close>

theorem totals_are_sums:
  "totalRequests (analyzeResourcesWithCheerio doc baseUrl) =
     sum_list (map count (values_of (breakdown (analyzeResourcesWithCheerio doc baseUrl))))
   \<and> totalEstimatedSize (analyzeResourcesWithCheerio doc baseUrl) =
     sum_list (map size' (values_of (breakdown (analyzeResourcesWithCheerio doc baseUrl))))
   \<and> size' (document (breakdown (analyzeResourcesWithCheerio doc baseUrl))) = 0
   \<and> length (values_of (breakdown (analyzeResourcesWithCheerio doc baseUrl))) = 6"
proof -
  have "totalEstimatedSize (scan doc) = sum_list (map size' (values_of (breakdown (scan doc))))"
    using scan_surplus [of doc] by (simp add: surplus_def)
  then show ?thesis
    by (simp add: analyzeResourcesWithCheerio_def Let_def values_of_def scan_document)
qed

section \<open>Signs\<close>

lemma estimates_nonneg:
  "0 \<le> estimateCSSSize s" "0 \<le> estimateJSSize s" "0 \<le> estimateImageSize s"
  "0 \<le> estimateFontSize s" "0 \<le> estimateOtherResourceSize s" "0 \<le> byteLength s"
  by (simp_all add: estimateCSSSize_def estimateJSSize_def estimateImageSize_def
      estimateFontSize_def estimateOtherResourceSize_def byteLength_def Let_def)

lemma each_nonneg:
  "nonneg st \<Longrightarrow> nonneg (cssLinks_each st e)"
  "nonneg st \<Longrightarrow> nonneg (inlineStyles_each st e)"
  "nonneg st \<Longrightarrow> nonneg (scriptTags_each st e)"
  "nonneg st \<Longrightarrow> nonneg (inlineScripts_each st e)"
  "nonneg st \<Longrightarrow> nonneg (images_each st e)"
  "nonneg st \<Longrightarrow> nonneg (fontLinks_each st e)"
  "nonneg st \<Longrightarrow> nonneg (webFontCSS_each st e)"
  "nonneg st \<Longrightarrow> nonneg (otherResources_each st e)"
  by (simp_all add: nonneg_def values_of_def each_defs tally_defs estimates_nonneg
      add_nonneg_nonneg split: option.splits)

lemma scan_nonneg: "nonneg (scan doc)"
proof -
  have "nonneg initial"
    by (simp add: nonneg_def initial_def values_of_def)
  then show ?thesis
  unfolding scan_def scan_from_def Let_def
  by (intro foldl_invariant [where I = nonneg, OF each_nonneg(1)]
      foldl_invariant [where I = nonneg, OF each_nonneg(2)]
      foldl_invariant [where I = nonneg, OF each_nonneg(3)]
      foldl_invariant [where I = nonneg, OF each_nonneg(4)]
      foldl_invariant [where I = nonneg, OF each_nonneg(5)]
      foldl_invariant [where I = nonneg, OF each_nonneg(6)]
      foldl_invariant [where I = nonneg, OF each_nonneg(7)]
      foldl_invariant [where I = nonneg, OF each_nonneg(8)])
qed

text \<open>
  C6. The returned breakdown is a record of exactly the six tallies document, stylesheet,
  script, image, font and other, whatever the document holds, and every count and every
  size in it is an integer that is not negative.
\<close>

theorem breakdown_nonneg:
  "values_of (breakdown (analyzeResourcesWithCheerio doc baseUrl)) =
     [document (breakdown (analyzeResourcesWithCheerio doc baseUrl)),
      stylesheet (breakdown (analyzeResourcesWithCheerio doc baseUrl)),
      script (breakdown (analyzeResourcesWithCheerio doc baseUrl)),
      image (breakdown (analyzeResourcesWithCheerio doc baseUrl)),
      font (breakdown (analyzeResourcesWithCheerio doc baseUrl)),
      other (breakdown (analyzeResourcesWithCheerio doc baseUrl))]
   \<and> list_all (\<lambda>t. 0 \<le> count t \<and> 0 \<le> size' t)
        (values_of (breakdown (analyzeResourcesWithCheerio doc baseUrl)))"
  using scan_nonneg [of doc]
  by (simp add: analyzeResourcesWithCheerio_def Let_def nonneg_def values_of_def)

text \<open>
  C9. The result does not depend on the \<open>baseUrl\<close> argument: the function never reads
  it, so no link is resolved against it.
\<close>

theorem baseUrl_unused:
  "analyzeResourcesWithCheerio doc b1 = analyzeResourcesWithCheerio doc b2"
  by (simp add: analyzeResourcesWithCheerio_def)

section \<open>Facts about strings and selectors\<close>

lemma includes_str_nonempty:
  assumes "includes_str s n" and "n \<noteq> []"
  shows "s \<noteq> []"
  using assms by (cases s) simp_all

lemma fold_case_plain:
  "fold_case ''href'' v = v" "fold_case ''as'' v = v" "fold_case ''style'' v = v"
  by (simp_all add: fold_case_def caseInsensitiveAttributes_def)

lemma fold_case_rel: "fold_case ''rel'' v = toLowerCase v"
  by (simp add: fold_case_def caseInsensitiveAttributes_def)

lemmas sel_defs = cssLinks_sel_def inlineStyles_sel_def scriptTags_sel_def
  inlineScripts_sel_def images_sel_def fontLinks_sel_def webFontCSS_sel_def
  otherResources_sel_def

section \<open>Elements that are not counted\<close>

lemma select_skip:
  assumes "\<not> matches sel e"
  shows "select sel (xs @ e # ys) = select sel (xs @ ys)"
  using assms by (simp add: select_def)

lemma foldl_select_idle:
  assumes "\<And>st. f st e = st"
  shows "foldl f st (select sel (xs @ e # ys)) = foldl f st (select sel (xs @ ys))"
  by (simp add: select_def assms)

lemma img_selected_only_as_image:
  assumes "tag e = ''img''"
  shows "\<not> matches cssLinks_sel e" "\<not> matches inlineStyles_sel e"
    "\<not> matches scriptTags_sel e" "\<not> matches inlineScripts_sel e"
    "\<not> matches fontLinks_sel e" "\<not> matches webFontCSS_sel e"
    "\<not> matches otherResources_sel e" "matches images_sel e"
  using assms by (simp_all add: matches_def sel_defs)

text \<open>
  A style attribute that nowhere holds \<^verbatim>\<open>background-image:\<close>, in any letter case,
  gives no URL.
\<close>

lemma no_background_image:
  assumes "\<not> includes_str (toLowerCase s) ''background-image:''"
  shows "regex_search s = None"
  using assms
proof (induction s)
  case Nil
  then show ?case by (simp add: match_at_def startsWith_ci_def)
next
  case (Cons c cs)
  then have "\<not> startsWith (toLowerCase (c # cs)) ''background-image:''"
    and "\<not> includes_str (toLowerCase cs) ''background-image:''"
    by (simp_all add: toLowerCase_def)
  moreover have "startsWith_ci (c # cs) ''background-image:'' =
    startsWith (toLowerCase (c # cs)) ''background-image:''"
    by (simp add: startsWith_ci_def startsWith_def toLowerCase_def toLowerCase_char_def take_map)
  ultimately show ?case
    using Cons.IH by (simp add: match_at_def)
qed

text \<open>
  An \<^verbatim>\<open>img\<close> element with no \<^verbatim>\<open>src\<close> attribute, no \<^verbatim>\<open>srcset\<close> attribute and a
  style attribute from which \<open>extractBackgroundImage\<close> gets nothing contributes to no
  tally: the result is the result of the document without it.
\<close>

lemma img_without_source_idle:
  assumes "tag e = ''img''"
    and "attr e ''src'' = None" and "attr e ''srcset'' = None"
    and "extractBackgroundImage (attr e ''style'') = None"
  shows "analyzeResourcesWithCheerio (xs @ e # ys) baseUrl =
         analyzeResourcesWithCheerio (xs @ ys) baseUrl"
proof -
  have idle: "images_each st e = st" for st
    using assms(2-4) by (simp add: images_each_def or_js_def)
  have "scan (xs @ e # ys) = scan (xs @ ys)"
    unfolding scan_def scan_from_def
    by (simp only: select_skip [OF img_selected_only_as_image(1) [OF assms(1)]]
        select_skip [OF img_selected_only_as_image(2) [OF assms(1)]]
        select_skip [OF img_selected_only_as_image(3) [OF assms(1)]]
        select_skip [OF img_selected_only_as_image(4) [OF assms(1)]]
        select_skip [OF img_selected_only_as_image(5) [OF assms(1)]]
        select_skip [OF img_selected_only_as_image(6) [OF assms(1)]]
        select_skip [OF img_selected_only_as_image(7) [OF assms(1)]]
        foldl_select_idle [of images_each, OF idle])
  then show ?thesis
    by (simp add: analyzeResourcesWithCheerio_def)
qed

text \<open>
  C7. The claim: an \<^verbatim>\<open>img\<close> element with no \<^verbatim>\<open>src\<close> attribute, no \<^verbatim>\<open>srcset\<close>
  attribute and no style attribute that contains a background-image URL contributes
  nothing. The code breaks it through the pattern of \<open>extractBackgroundImage\<close>, whose
  doubled backslashes ask for backslash characters where a white-space class and escaped
  parentheses were meant. An \<^verbatim>\<open>img\<close> whose only attribute is a style made of
  \<^verbatim>\<open>background-image:\<close>, a backslash, \<^verbatim>\<open>url\<close>, a backslash, \<^verbatim>\<open>x\<close> and a
  backslash, which holds no URL, is counted as one image of 75000 bytes, while the style
  \<^verbatim>\<open>background-image: url(hero.jpg)\<close> gives no URL at all.
\<close>

theorem img_with_backslash_style_counted:
  "attr \<lparr>tag = ''img'',
      attrs = [(''style'', ''background-image:'' @ [CHR 0x5C] @ ''url'' @ [CHR 0x5C] @ ''x''
        @ [CHR 0x5C])], inner = [], ancestors = []\<rparr> ''src'' = None
   \<and> attr \<lparr>tag = ''img'',
      attrs = [(''style'', ''background-image:'' @ [CHR 0x5C] @ ''url'' @ [CHR 0x5C] @ ''x''
        @ [CHR 0x5C])], inner = [], ancestors = []\<rparr> ''srcset'' = None
   \<and> extractBackgroundImage
        (Some (''background-image:'' @ [CHR 0x5C] @ ''url'' @ [CHR 0x5C] @ ''x'' @ [CHR 0x5C])) =
       Some (''x'' @ [CHR 0x5C])
   \<and> image (breakdown (analyzeResourcesWithCheerio
        [\<lparr>tag = ''img'',
           attrs = [(''style'', ''background-image:'' @ [CHR 0x5C] @ ''url'' @ [CHR 0x5C] @ ''x''
             @ [CHR 0x5C])], inner = [], ancestors = []\<rparr>]
        ''https://example.com'')) = \<lparr>count = 1, size' = 75000\<rparr>
   \<and> image (breakdown (analyzeResourcesWithCheerio [] ''https://example.com'')) =
       \<lparr>count = 0, size' = 0\<rparr>
   \<and> extractBackgroundImage (Some ''background-image: url(hero.jpg)'') = None"
  by code_simp

section \<open>One more element in the document\<close>

lemma sum_select_insert:
  fixes d :: "element \<Rightarrow> int"
  shows "sum_list (map d (select sel (xs @ e # ys))) =
         sum_list (map d (select sel (xs @ ys))) + (if matches sel e then d e else 0)"
  by (simp add: select_def)

lemma scan_adds:
  fixes g :: "acc \<Rightarrow> int"
  assumes "\<And>st e. g (cssLinks_each st e) = g st + d1 e"
    and "\<And>st e. g (inlineStyles_each st e) = g st + d2 e"
    and "\<And>st e. g (scriptTags_each st e) = g st + d3 e"
    and "\<And>st e. g (inlineScripts_each st e) = g st + d4 e"
    and "\<And>st e. g (images_each st e) = g st + d5 e"
    and "\<And>st e. g (fontLinks_each st e) = g st + d6 e"
    and "\<And>st e. g (webFontCSS_each st e) = g st + d7 e"
    and "\<And>st e. g (otherResources_each st e) = g st + d8 e"
  shows "g (scan doc) = g initial
     + sum_list (map d1 (select cssLinks_sel doc))
     + sum_list (map d2 (select inlineStyles_sel doc))
     + sum_list (map d3 (select scriptTags_sel doc))
     + sum_list (map d4 (select inlineScripts_sel doc))
     + sum_list (map d5 (select images_sel doc))
     + sum_list (map d6 (select fontLinks_sel doc))
     + sum_list (map d7 (select webFontCSS_sel doc))
     + sum_list (map d8 (select otherResources_sel doc))"
  unfolding scan_def scan_from_def Let_def
  by (simp only: foldl_adds [where g = g, OF assms(1)] foldl_adds [where g = g, OF assms(2)]
      foldl_adds [where g = g, OF assms(3)] foldl_adds [where g = g, OF assms(4)]
      foldl_adds [where g = g, OF assms(5)] foldl_adds [where g = g, OF assms(6)]
      foldl_adds [where g = g, OF assms(7)] foldl_adds [where g = g, OF assms(8)])

lemma scan_insert:
  fixes g :: "acc \<Rightarrow> int"
  assumes "\<And>st e. g (cssLinks_each st e) = g st + d1 e"
    and "\<And>st e. g (inlineStyles_each st e) = g st + d2 e"
    and "\<And>st e. g (scriptTags_each st e) = g st + d3 e"
    and "\<And>st e. g (inlineScripts_each st e) = g st + d4 e"
    and "\<And>st e. g (images_each st e) = g st + d5 e"
    and "\<And>st e. g (fontLinks_each st e) = g st + d6 e"
    and "\<And>st e. g (webFontCSS_each st e) = g st + d7 e"
    and "\<And>st e. g (otherResources_each st e) = g st + d8 e"
  shows "g (scan (xs @ e # ys)) = g (scan (xs @ ys))
     + ((if matches cssLinks_sel e then d1 e else 0)
      + (if matches inlineStyles_sel e then d2 e else 0)
      + (if matches scriptTags_sel e then d3 e else 0)
      + (if matches inlineScripts_sel e then d4 e else 0)
      + (if matches images_sel e then d5 e else 0)
      + (if matches fontLinks_sel e then d6 e else 0)
      + (if matches webFontCSS_sel e then d7 e else 0)
      + (if matches otherResources_sel e then d8 e else 0))"
  by (simp only: scan_adds [of g, OF assms] sum_select_insert)

lemma font_count_insert:
  "count (font (breakdown (scan (xs @ e # ys)))) = count (font (breakdown (scan (xs @ ys))))
     + (if matches fontLinks_sel e then fontLinks_count e else 0)
     + (if matches webFontCSS_sel e then 2 else 0)"
proof -
  have "count (font (breakdown (scan (xs @ e # ys)))) = count (font (breakdown (scan (xs @ ys))))
     + ((if matches cssLinks_sel e then 0 else 0)
      + (if matches inlineStyles_sel e then 0 else 0)
      + (if matches scriptTags_sel e then 0 else 0)
      + (if matches inlineScripts_sel e then 0 else 0)
      + (if matches images_sel e then 0 else 0)
      + (if matches fontLinks_sel e then fontLinks_count e else 0)
      + (if matches webFontCSS_sel e then 2 else 0)
      + (if matches otherResources_sel e then 0 else 0))"
    by (rule scan_insert [where g = "\<lambda>st. count (font (breakdown st))"])
      (simp_all add: each_defs tally_defs fontLinks_count_def split: option.splits)
  then show ?thesis
    by simp
qed

lemma font_size_insert:
  "size' (font (breakdown (scan (xs @ e # ys)))) = size' (font (breakdown (scan (xs @ ys))))
     + (if matches fontLinks_sel e then fontLinks_size e else 0)
     + (if matches webFontCSS_sel e then 60000 else 0)"
proof -
  have "size' (font (breakdown (scan (xs @ e # ys)))) = size' (font (breakdown (scan (xs @ ys))))
     + ((if matches cssLinks_sel e then 0 else 0)
      + (if matches inlineStyles_sel e then 0 else 0)
      + (if matches scriptTags_sel e then 0 else 0)
      + (if matches inlineScripts_sel e then 0 else 0)
      + (if matches images_sel e then 0 else 0)
      + (if matches fontLinks_sel e then fontLinks_size e else 0)
      + (if matches webFontCSS_sel e then 60000 else 0)
      + (if matches otherResources_sel e then 0 else 0))"
    by (rule scan_insert [where g = "\<lambda>st. size' (font (breakdown st))"])
      (simp_all add: each_defs tally_defs fontLinks_size_def split: option.splits)
  then show ?thesis
    by simp
qed


lemma stylesheet_count_insert:
  assumes "\<not> matches inlineStyles_sel e"
  shows "count (stylesheet (breakdown (scan (xs @ e # ys)))) =
         count (stylesheet (breakdown (scan (xs @ ys))))
         + (if matches cssLinks_sel e then cssLinks_count e else 0)"
proof -
  have "count (stylesheet (breakdown (scan (xs @ e # ys)))) =
     count (stylesheet (breakdown (scan (xs @ ys))))
     + ((if matches cssLinks_sel e then cssLinks_count e else 0)
      + (if matches inlineStyles_sel e then (if inner e \<noteq> [] then 1 else 0) else 0)
      + (if matches scriptTags_sel e then 0 else 0)
      + (if matches inlineScripts_sel e then 0 else 0)
      + (if matches images_sel e then 0 else 0)
      + (if matches fontLinks_sel e then 0 else 0)
      + (if matches webFontCSS_sel e then 0 else 0)
      + (if matches otherResources_sel e then 0 else 0))"
    by (rule scan_insert [where g = "\<lambda>st. count (stylesheet (breakdown st))"])
      (simp_all add: each_defs tally_defs cssLinks_count_def split: option.splits)
  with assms show ?thesis
    by simp
qed

lemma stylesheet_size_insert:
  assumes "\<not> matches inlineStyles_sel e"
  shows "size' (stylesheet (breakdown (scan (xs @ e # ys)))) =
         size' (stylesheet (breakdown (scan (xs @ ys))))
         + (if matches cssLinks_sel e then cssLinks_size e else 0)"
proof -
  have "size' (stylesheet (breakdown (scan (xs @ e # ys)))) =
     size' (stylesheet (breakdown (scan (xs @ ys))))
     + ((if matches cssLinks_sel e then cssLinks_size e else 0)
      + (if matches inlineStyles_sel e
         then (if inner e \<noteq> [] then byteLength (inner e) else 0) else 0)
      + (if matches scriptTags_sel e then 0 else 0)
      + (if matches inlineScripts_sel e then 0 else 0)
      + (if matches images_sel e then 0 else 0)
      + (if matches fontLinks_sel e then 0 else 0)
      + (if matches webFontCSS_sel e then 0 else 0)
      + (if matches otherResources_sel e then 0 else 0))"
    by (rule scan_insert [where g = "\<lambda>st. size' (stylesheet (breakdown st))"])
      (simp_all add: each_defs tally_defs cssLinks_size_def split: option.splits)
  with assms show ?thesis
    by simp
qed

lemma breakdown_analyze: "breakdown (analyzeResourcesWithCheerio doc baseUrl) = breakdown (scan doc)"
  by (simp add: analyzeResourcesWithCheerio_def Let_def)

text \<open>
  C1, as amended. A \<^verbatim>\<open>link\<close> whose \<^verbatim>\<open>href\<close> contains \<^verbatim>\<open>fonts.googleapis.com\<close>,
  \<^verbatim>\<open>fonts.google.com\<close> or \<^verbatim>\<open>typekit.net\<close> is selected by the web-font rule, whose
  callback adds 2 to the font count and 60000 (one estimate for the family) to the font
  size. In the result this comes on top of what the direct font-link rule adds for the
  same element: 1 and the font estimate of the \<^verbatim>\<open>href\<close> when that rule selects it,
  nothing otherwise.
\<close>

theorem web_font_link_adds:
  assumes "tag e = ''link''" and "attr e ''href'' = Some h"
    and "includes_str h ''fonts.googleapis.com'' \<or> includes_str h ''fonts.google.com''
         \<or> includes_str h ''typekit.net''"
  shows "font (breakdown (webFontCSS_each st e)) =
           \<lparr>count = count (font (breakdown st)) + 2, size' = size' (font (breakdown st)) + 60000\<rparr>
       \<and> count (font (breakdown (analyzeResourcesWithCheerio (xs @ e # ys) baseUrl))) =
           count (font (breakdown (analyzeResourcesWithCheerio (xs @ ys) baseUrl)))
           + 2 + (if matches fontLinks_sel e then 1 else 0)
       \<and> size' (font (breakdown (analyzeResourcesWithCheerio (xs @ e # ys) baseUrl))) =
           size' (font (breakdown (analyzeResourcesWithCheerio (xs @ ys) baseUrl)))
           + 60000 + (if matches fontLinks_sel e then estimateFontSize h else 0)"
proof -
  have web: "matches webFontCSS_sel e"
    using assms by (auto simp: matches_def webFontCSS_sel_def fold_case_plain)
  have "h \<noteq> []"
    using assms(3) includes_str_nonempty [of h] by auto
  with assms(2) have direct: "fontLinks_count e = 1" "fontLinks_size e = estimateFontSize h"
    by (simp_all add: fontLinks_count_def fontLinks_size_def)
  have each: "font (breakdown (webFontCSS_each st e)) =
      \<lparr>count = count (font (breakdown st)) + 2, size' = size' (font (breakdown st)) + 60000\<rparr>"
    by (simp add: webFontCSS_each_def tally_defs)
  from web direct each show ?thesis
    by (simp add: breakdown_analyze font_count_insert font_size_insert)
qed

theorem web_font_link_adds_witness:
  "tag \<lparr>tag = ''link'', attrs = [(''href'', ''https://fonts.googleapis.com/css?family=Roboto'')],
      inner = [], ancestors = [''head'', ''html'']\<rparr> = ''link''
   \<and> attr \<lparr>tag = ''link'',
        attrs = [(''href'', ''https://fonts.googleapis.com/css?family=Roboto'')],
        inner = [], ancestors = [''head'', ''html'']\<rparr> ''href'' =
       Some ''https://fonts.googleapis.com/css?family=Roboto''
   \<and> includes_str ''https://fonts.googleapis.com/css?family=Roboto'' ''fonts.googleapis.com''
   \<and> font (breakdown (analyzeResourcesWithCheerio
        [\<lparr>tag = ''script'', attrs = [(''src'', ''app.js'')], inner = [], ancestors = []\<rparr>]
        ''https://example.com'')) = \<lparr>count = 0, size' = 0\<rparr>
   \<and> font (breakdown (analyzeResourcesWithCheerio
        [\<lparr>tag = ''script'', attrs = [(''src'', ''app.js'')], inner = [], ancestors = []\<rparr>,
         \<lparr>tag = ''link'',
           attrs = [(''href'', ''https://fonts.googleapis.com/css?family=Roboto'')],
           inner = [], ancestors = [''head'', ''html'']\<rparr>]
        ''https://example.com'')) = \<lparr>count = 3, size' = 90000\<rparr>"
proof -
  let ?e = "\<lparr>tag = ''link'',
    attrs = [(''href'', ''https://fonts.googleapis.com/css?family=Roboto'')],
    inner = [], ancestors = [''head'', ''html'']\<rparr>"
  let ?s = "\<lparr>tag = ''script'', attrs = [(''src'', ''app.js'')], inner = [], ancestors = []\<rparr>"
  have t: "tag ?e = ''link''"
    by simp
  have a: "attr ?e ''href'' = Some ''https://fonts.googleapis.com/css?family=Roboto''"
    by (simp add: attr_def)
  have i: "includes_str ''https://fonts.googleapis.com/css?family=Roboto'' ''fonts.googleapis.com''"
    by code_simp
  have d: "matches fontLinks_sel ?e"
    by code_simp
  have f: "estimateFontSize ''https://fonts.googleapis.com/css?family=Roboto'' = 30000"
    by code_simp
  have z: "font (breakdown (analyzeResourcesWithCheerio [?s] ''https://example.com'')) =
    \<lparr>count = 0, size' = 0\<rparr>"
    by code_simp
  from web_font_link_adds [OF t a disjI1 [OF i], of initial "[?s]" "[]" "''https://example.com''"]
    t a i d f z
  show ?thesis
    by (simp add: Tally.equality)
qed

text \<open>
  The claim as stated has the web-font rule add 120000 to the font size. On a document of
  one Typekit link, which the direct rule does not select, the font tally is count 2 and
  size 60000; on the specification's own example the direct rule gives 1 and 30000 and
  the result is count 3 and size 90000, not 150000.
\<close>

theorem web_font_size_counterexample:
  "font (breakdown (analyzeResourcesWithCheerio
     [\<lparr>tag = ''link'', attrs = [(''href'', ''https://use.typekit.net/abc1def.css'')],
        inner = [], ancestors = []\<rparr>]
     ''https://example.com'')) = \<lparr>count = 2, size' = 60000\<rparr>
   \<and> font (breakdown (analyzeResourcesWithCheerio
     [\<lparr>tag = ''link'',
        attrs = [(''href'', ''https://fonts.googleapis.com/css?family=Roboto'')],
        inner = [], ancestors = []\<rparr>]
     ''https://example.com'')) = \<lparr>count = 3, size' = 90000\<rparr>
   \<and> font (breakdown (analyzeResourcesWithCheerio [] ''https://example.com'')) =
       \<lparr>count = 0, size' = 0\<rparr>
   \<and> size' (font (breakdown (analyzeResourcesWithCheerio
     [\<lparr>tag = ''link'', attrs = [(''href'', ''https://use.typekit.net/abc1def.css'')],
        inner = [], ancestors = []\<rparr>]
     ''https://example.com''))) \<noteq>
       size' (font (breakdown (analyzeResourcesWithCheerio [] ''https://example.com''))) + 120000"
  by code_simp

text \<open>
  C10. A \<^verbatim>\<open>link\<close> with \<^verbatim>\<open>rel="stylesheet"\<close> whose \<^verbatim>\<open>href\<close> contains \<^verbatim>\<open>font\<close> is
  tallied twice: the stylesheet rule adds 1 to the stylesheet count and the CSS estimate
  of the \<^verbatim>\<open>href\<close> to the stylesheet size, and the font rule adds 1 to the font count
  and the font estimate of the \<^verbatim>\<open>href\<close> to the font size (the web-font rule adding
  its own 2 and 60000 when it selects the element too).
\<close>

theorem stylesheet_font_link_counted_twice:
  assumes "tag e = ''link''" and "attr e ''rel'' = Some ''stylesheet''"
    and "attr e ''href'' = Some h" and "includes_str h ''font''"
  shows "count (stylesheet (breakdown (analyzeResourcesWithCheerio (xs @ e # ys) baseUrl))) =
           count (stylesheet (breakdown (analyzeResourcesWithCheerio (xs @ ys) baseUrl))) + 1
       \<and> size' (stylesheet (breakdown (analyzeResourcesWithCheerio (xs @ e # ys) baseUrl))) =
           size' (stylesheet (breakdown (analyzeResourcesWithCheerio (xs @ ys) baseUrl)))
           + estimateCSSSize h
       \<and> count (font (breakdown (analyzeResourcesWithCheerio (xs @ e # ys) baseUrl))) =
           count (font (breakdown (analyzeResourcesWithCheerio (xs @ ys) baseUrl)))
           + 1 + (if matches webFontCSS_sel e then 2 else 0)
       \<and> size' (font (breakdown (analyzeResourcesWithCheerio (xs @ e # ys) baseUrl))) =
           size' (font (breakdown (analyzeResourcesWithCheerio (xs @ ys) baseUrl)))
           + estimateFontSize h + (if matches webFontCSS_sel e then 60000 else 0)"
proof -
  have css: "matches cssLinks_sel e" and "\<not> matches inlineStyles_sel e"
    and fnt: "matches fontLinks_sel e"
    using assms
    by (simp_all add: matches_def cssLinks_sel_def inlineStyles_sel_def fontLinks_sel_def
        fold_case_plain fold_case_rel)
  note sheet = stylesheet_count_insert [OF \<open>\<not> matches inlineStyles_sel e\<close>]
    stylesheet_size_insert [OF \<open>\<not> matches inlineStyles_sel e\<close>]
  have "h \<noteq> []"
    using assms(4) by (rule includes_str_nonempty) simp
  with assms(3) have vals: "cssLinks_count e = 1" "cssLinks_size e = estimateCSSSize h"
    "fontLinks_count e = 1" "fontLinks_size e = estimateFontSize h"
    by (simp_all add: cssLinks_count_def cssLinks_size_def fontLinks_count_def fontLinks_size_def)
  from css fnt vals show ?thesis
    by (simp add: breakdown_analyze sheet font_count_insert font_size_insert)
qed

theorem stylesheet_font_link_counted_twice_witness:
  "tag \<lparr>tag = ''link'',
      attrs = [(''rel'', ''stylesheet''), (''href'', ''font-awesome.min.css'')],
      inner = [], ancestors = [''head'', ''html'']\<rparr> = ''link''
   \<and> attr \<lparr>tag = ''link'',
        attrs = [(''rel'', ''stylesheet''), (''href'', ''font-awesome.min.css'')],
        inner = [], ancestors = [''head'', ''html'']\<rparr> ''rel'' = Some ''stylesheet''
   \<and> attr \<lparr>tag = ''link'',
        attrs = [(''rel'', ''stylesheet''), (''href'', ''font-awesome.min.css'')],
        inner = [], ancestors = [''head'', ''html'']\<rparr> ''href'' = Some ''font-awesome.min.css''
   \<and> includes_str ''font-awesome.min.css'' ''font''
   \<and> stylesheet (breakdown (analyzeResourcesWithCheerio
        [\<lparr>tag = ''link'',
           attrs = [(''rel'', ''stylesheet''), (''href'', ''font-awesome.min.css'')],
           inner = [], ancestors = [''head'', ''html'']\<rparr>,
         \<lparr>tag = ''img'', attrs = [(''src'', ''a.png'')], inner = [], ancestors = []\<rparr>]
        ''https://example.com'')) = \<lparr>count = 1, size' = 75000\<rparr>
   \<and> font (breakdown (analyzeResourcesWithCheerio
        [\<lparr>tag = ''link'',
           attrs = [(''rel'', ''stylesheet''), (''href'', ''font-awesome.min.css'')],
           inner = [], ancestors = [''head'', ''html'']\<rparr>,
         \<lparr>tag = ''img'', attrs = [(''src'', ''a.png'')], inner = [], ancestors = []\<rparr>]
        ''https://example.com'')) = \<lparr>count = 1, size' = 30000\<rparr>"
proof -
  let ?e = "\<lparr>tag = ''link'',
    attrs = [(''rel'', ''stylesheet''), (''href'', ''font-awesome.min.css'')],
    inner = [], ancestors = [''head'', ''html'']\<rparr>"
  let ?i = "\<lparr>tag = ''img'', attrs = [(''src'', ''a.png'')], inner = [], ancestors = []\<rparr>"
  have t: "tag ?e = ''link''"
    by simp
  have r: "attr ?e ''rel'' = Some ''stylesheet''"
    and a: "attr ?e ''href'' = Some ''font-awesome.min.css''"
    by (simp_all add: attr_def)
  have i: "includes_str ''font-awesome.min.css'' ''font''"
    by code_simp
  have w: "\<not> matches webFontCSS_sel ?e"
    by code_simp
  have c: "estimateCSSSize ''font-awesome.min.css'' = 75000"
    and f: "estimateFontSize ''font-awesome.min.css'' = 30000"
    by code_simp+
  have z: "stylesheet (breakdown (analyzeResourcesWithCheerio [?i] ''https://example.com'')) =
      \<lparr>count = 0, size' = 0\<rparr>"
    "font (breakdown (analyzeResourcesWithCheerio [?i] ''https://example.com'')) =
      \<lparr>count = 0, size' = 0\<rparr>"
    by code_simp+
  from stylesheet_font_link_counted_twice [OF t r a i, of "[]" "[?i]" "''https://example.com''"]
    t r a i w c f z
  show ?thesis
    by (simp add: Tally.equality)
qed

section \<open>The script tally\<close>

lemma script_count_scan:
  "count (script (breakdown (scan doc))) =
     sum_list (map (\<lambda>e. if truthy (attr e ''src'') then 1 else 0) (select scriptTags_sel doc))
   + sum_list (map (\<lambda>e. if inner e \<noteq> [] \<and> trim_truthy (inner e) then 1 else 0)
       (select inlineScripts_sel doc))"
proof -
  have "count (script (breakdown (scan doc))) = count (script (breakdown initial))
     + sum_list (map (\<lambda>e. 0) (select cssLinks_sel doc))
     + sum_list (map (\<lambda>e. 0) (select inlineStyles_sel doc))
     + sum_list (map (\<lambda>e. if truthy (attr e ''src'') then 1 else 0) (select scriptTags_sel doc))
     + sum_list (map (\<lambda>e. if inner e \<noteq> [] \<and> trim_truthy (inner e) then 1 else 0)
         (select inlineScripts_sel doc))
     + sum_list (map (\<lambda>e. 0) (select images_sel doc))
     + sum_list (map (\<lambda>e. 0) (select fontLinks_sel doc))
     + sum_list (map (\<lambda>e. 0) (select webFontCSS_sel doc))
     + sum_list (map (\<lambda>e. 0) (select otherResources_sel doc))"
    by (rule scan_adds [where g = "\<lambda>st. count (script (breakdown st))"])
      (simp_all add: each_defs tally_defs split: option.splits)
  then show ?thesis
    by (simp add: initial_def)
qed

lemma script_size_scan:
  "size' (script (breakdown (scan doc))) =
     sum_list (map (\<lambda>e. case attr e ''src'' of None \<Rightarrow> 0
                        | Some s \<Rightarrow> if s = [] then 0 else estimateJSSize s)
       (select scriptTags_sel doc))
   + sum_list (map (\<lambda>e. if inner e \<noteq> [] \<and> trim_truthy (inner e) then byteLength (inner e) else 0)
       (select inlineScripts_sel doc))"
proof -
  have "size' (script (breakdown (scan doc))) = size' (script (breakdown initial))
     + sum_list (map (\<lambda>e. 0) (select cssLinks_sel doc))
     + sum_list (map (\<lambda>e. 0) (select inlineStyles_sel doc))
     + sum_list (map (\<lambda>e. case attr e ''src'' of None \<Rightarrow> 0
                        | Some s \<Rightarrow> if s = [] then 0 else estimateJSSize s)
         (select scriptTags_sel doc))
     + sum_list (map (\<lambda>e. if inner e \<noteq> [] \<and> trim_truthy (inner e)
                        then byteLength (inner e) else 0)
         (select inlineScripts_sel doc))
     + sum_list (map (\<lambda>e. 0) (select images_sel doc))
     + sum_list (map (\<lambda>e. 0) (select fontLinks_sel doc))
     + sum_list (map (\<lambda>e. 0) (select webFontCSS_sel doc))
     + sum_list (map (\<lambda>e. 0) (select otherResources_sel doc))"
    by (rule scan_adds [where g = "\<lambda>st. size' (script (breakdown st))"])
      (simp_all add: each_defs tally_defs split: option.splits)
  then show ?thesis
    by (simp add: initial_def)
qed

lemma select_one_script:
  assumes "\<forall>x \<in> set (xs @ ys). tag x \<noteq> ''script''"
    and "tag e = ''script''" and "attr e ''src'' = Some s"
  shows "select scriptTags_sel (xs @ e # ys) = [e]"
    and "select inlineScripts_sel (xs @ e # ys) = []"
  using assms
  by (auto simp: select_def matches_def scriptTags_sel_def inlineScripts_sel_def
      filter_empty_conv)

text \<open>
  C3, as amended. The library names are checked before the minified suffix, and
  \<^verbatim>\<open>react\<close>, \<^verbatim>\<open>vue\<close> and \<^verbatim>\<open>angular\<close> before \<^verbatim>\<open>jquery\<close>: a script source that
  contains \<^verbatim>\<open>jquery\<close> and none of those three is estimated at 85000, also when it
  contains \<^verbatim>\<open>.min.js\<close>, and a document whose only script element has that source has
  script count 1 and script size 85000.
\<close>

theorem jquery_before_min_js:
  assumes "includes_str src ''jquery''"
    and "\<not> includes_str src ''react''" and "\<not> includes_str src ''vue''"
    and "\<not> includes_str src ''angular''"
    and "tag e = ''script''" and "attr e ''src'' = Some src"
    and "\<forall>x \<in> set (xs @ ys). tag x \<noteq> ''script''"
  shows "estimateJSSize src = 85000
       \<and> script (breakdown (analyzeResourcesWithCheerio (xs @ e # ys) baseUrl)) =
           \<lparr>count = 1, size' = 85000\<rparr>"
proof -
  have size: "estimateJSSize src = 85000"
    using assms(1-4) by (simp add: estimateJSSize_def)
  have "src \<noteq> []"
    using assms(1) by (rule includes_str_nonempty) simp
  with size assms(6) select_one_script [OF assms(7) assms(5) assms(6)]
  have "count (script (breakdown (scan (xs @ e # ys)))) = 1"
    and "size' (script (breakdown (scan (xs @ e # ys)))) = 85000"
    by (simp_all add: script_count_scan script_size_scan)
  with size show ?thesis
    by (simp add: breakdown_analyze Tally.equality)
qed

theorem jquery_before_min_js_witness:
  "includes_str ''jquery.min.js'' ''jquery'' \<and> includes_str ''jquery.min.js'' ''.min.js''
   \<and> \<not> includes_str ''jquery.min.js'' ''react'' \<and> \<not> includes_str ''jquery.min.js'' ''vue''
   \<and> \<not> includes_str ''jquery.min.js'' ''angular''
   \<and> estimateJSSize ''jquery.min.js'' = 85000
   \<and> script (breakdown (analyzeResourcesWithCheerio
        [\<lparr>tag = ''html'', attrs = [], inner = [], ancestors = []\<rparr>,
         \<lparr>tag = ''head'', attrs = [], inner = [], ancestors = [''html'']\<rparr>,
         \<lparr>tag = ''script'', attrs = [(''src'', ''jquery.min.js'')], inner = [],
           ancestors = [''head'', ''html'']\<rparr>,
         \<lparr>tag = ''body'', attrs = [], inner = [], ancestors = [''html'']\<rparr>]
        ''https://example.com'')) = \<lparr>count = 1, size' = 85000\<rparr>"
proof -
  let ?e = "\<lparr>tag = ''script'', attrs = [(''src'', ''jquery.min.js'')], inner = [],
    ancestors = [''head'', ''html'']\<rparr>"
  let ?xs = "[\<lparr>tag = ''html'', attrs = [], inner = [], ancestors = []\<rparr>,
    \<lparr>tag = ''head'', attrs = [], inner = [], ancestors = [''html'']\<rparr>]"
  let ?ys = "[\<lparr>tag = ''body'', attrs = [], inner = [], ancestors = [''html'']\<rparr>]"
  have i: "includes_str ''jquery.min.js'' ''jquery''" "includes_str ''jquery.min.js'' ''.min.js''"
    and n: "\<not> includes_str ''jquery.min.js'' ''react''" "\<not> includes_str ''jquery.min.js'' ''vue''"
      "\<not> includes_str ''jquery.min.js'' ''angular''"
    by (simp_all add: startsWith_def)
  have t: "tag ?e = ''script''" and a: "attr ?e ''src'' = Some ''jquery.min.js''"
    by (simp_all add: attr_def)
  have o: "\<forall>x \<in> set (?xs @ ?ys). tag x \<noteq> ''script''"
    by simp
  from jquery_before_min_js [OF i(1) n t a o, of "''https://example.com''"] i n
  show ?thesis
    by simp
qed

text \<open>
  The claim as stated promises 85000 for every source that contains \<^verbatim>\<open>jquery\<close>. A
  source that also contains \<^verbatim>\<open>vue\<close> is caught by the first check and gets 200000.
\<close>

theorem jquery_counterexample:
  "includes_str ''vue-jquery.min.js'' ''jquery'' \<and> includes_str ''vue-jquery.min.js'' ''.min.js''
   \<and> estimateJSSize ''vue-jquery.min.js'' = 200000
   \<and> estimateJSSize ''vue-jquery.min.js'' \<noteq> 85000"
  by (simp add: estimateJSSize_def startsWith_def)

section \<open>Calls in sequence\<close>



text \<open>
  The scans add to whatever the two variables hold: run from the state an earlier scan
  left, they give other tallies than from the literal. That a call is not affected by the
  calls before it therefore rests on the declarations at the head of the body.
\<close>

lemma scans_accumulate:
  "scan_from (scan_from initial
      [\<lparr>tag = ''img'', attrs = [(''src'', ''a.png'')], inner = [], ancestors = []\<rparr>])
      [\<lparr>tag = ''img'', attrs = [(''src'', ''a.png'')], inner = [], ancestors = []\<rparr>] \<noteq>
   scan_from initial
      [\<lparr>tag = ''img'', attrs = [(''src'', ''a.png'')], inner = [], ancestors = []\<rparr>]"
  by code_simp



end
